theory Spec2Isabelle
  imports Complex_Main "HOL-Library.Word"
begin

unbundle bit_operations_syntax

section \<open>The MAX17048G fuel-gauge driver\<close>

text \<open>
  A shallow embedding of \<^verbatim>\<open>LiMAX17048G.cpp\<close> and \<^verbatim>\<open>LiMAX17048G.h\<close>. Every method of the
  class talks to the chip through the global \<^verbatim>\<open>Wire\<close> object, so each method becomes a
  function that takes the state of the bus and returns its result together with the new
  state. A \<^verbatim>\<open>uint8_t\<close> is an \<open>8 word\<close>; a C \<^verbatim>\<open>int\<close> (the type to which every operand of
  \<^verbatim>\<open>~\<close>, \<^verbatim>\<open>&\<close>, \<^verbatim>\<open>|\<close>, \<^verbatim>\<open>+\<close>, \<^verbatim>\<open><<\<close> and \<^verbatim>\<open>>>\<close> is promoted) is an \<open>int\<close>, since no
  intermediate value of the driver leaves the range of a 16-bit \<^verbatim>\<open>int\<close>; storing an
  \<^verbatim>\<open>int\<close> into a \<^verbatim>\<open>uint8_t\<close> is \<open>word_of_int\<close>.
\<close>

type_synonym uint8_t = "8 word"

subsection \<open>The header: variants and register addresses\<close>

datatype gaugeType = MAX17048 | MAX17049

text \<open>The enumerators' values: \<^verbatim>\<open>MAX17048 = 1, MAX17049 = 2\<close>.\<close>

fun gaugeType_value :: "gaugeType \<Rightarrow> int" where
  "gaugeType_value MAX17048 = 1"
| "gaugeType_value MAX17049 = 2"

definition MAX1704X_ADDR :: uint8_t where "MAX1704X_ADDR = 0x36"
definition MAX1704X_VCELL_ADDR :: uint8_t where "MAX1704X_VCELL_ADDR = 0x02"
definition MAX1704X_SOC_ADDR :: uint8_t where "MAX1704X_SOC_ADDR = 0x04"
definition MAX1704X_MODE_ADDR :: uint8_t where "MAX1704X_MODE_ADDR = 0x06"
definition MAX1704X_VERSION_ADDR :: uint8_t where "MAX1704X_VERSION_ADDR = 0x08"
definition MAX1704X_CONFIG_ADDR :: uint8_t where "MAX1704X_CONFIG_ADDR = 0x0C"
definition MAX1704X_RCOMP_ADDR :: uint8_t where "MAX1704X_RCOMP_ADDR = 0x0C"
definition MAX1704X_ATHRD_ADDR :: uint8_t where "MAX1704X_ATHRD_ADDR = 0x0D"
definition MAX1704X_COMMAND_ADDR :: uint8_t where "MAX1704X_COMMAND_ADDR = 0xFE"

subsection \<open>The bus transport\<close>

text \<open>
  The \<^verbatim>\<open>Wire\<close> library and the chip behind it are not part of the repository. They are
  modelled as the driver uses them: a byte-addressed register file \<open>regs\<close> with a register
  pointer \<open>ptr\<close> that a write transaction sets from its first byte and that advances with
  every byte transferred; a transmit buffer filled by \<^verbatim>\<open>write\<close> and a receive buffer
  filled by \<^verbatim>\<open>requestFrom\<close> and drained by \<^verbatim>\<open>read\<close>. The completion code of the
  \<open>n\<close>-th \<^verbatim>\<open>endTransmission\<close> is \<open>codes n\<close>, chosen by the transport; \<open>ntx\<close> counts the
  transactions closed so far and \<open>sent\<close> holds the bytes of the last one, as the driver
  put them on the bus. The chip takes the bytes of a transaction exactly when its
  completion code is 0 and the transaction was addressed to it.
\<close>

record wire =
  regs :: "uint8_t \<Rightarrow> uint8_t"
  ptr :: uint8_t
  target :: uint8_t
  txbuf :: "uint8_t list"
  rxbuf :: "uint8_t list"
  codes :: "nat \<Rightarrow> uint8_t"
  ntx :: nat
  sent :: "uint8_t list"

definition Wire_beginTransmission :: "uint8_t \<Rightarrow> wire \<Rightarrow> wire" where
  "Wire_beginTransmission a w = w\<lparr>target := a, txbuf := []\<rparr>"

definition Wire_write :: "uint8_t \<Rightarrow> wire \<Rightarrow> wire" where
  "Wire_write v w = w\<lparr>txbuf := txbuf w @ [v]\<rparr>"

text \<open>The data bytes of a write transaction go to consecutive registers.\<close>

fun store :: "uint8_t list \<Rightarrow> wire \<Rightarrow> wire" where
  "store [] w = w"
| "store (d # ds) w = store ds (w\<lparr>regs := (regs w)(ptr w := d), ptr := ptr w + 1\<rparr>)"

fun deliver :: "uint8_t list \<Rightarrow> wire \<Rightarrow> wire" where
  "deliver [] w = w"
| "deliver (a # ds) w = store ds (w\<lparr>ptr := a\<rparr>)"

text \<open>
  \<^verbatim>\<open>endTransmission(stop)\<close> sends the buffered bytes and returns the completion code.
  Whether a stop condition or a repeated start follows (\<open>stop\<close>) makes no difference to
  the registers.
\<close>

definition Wire_endTransmission :: "bool \<Rightarrow> wire \<Rightarrow> uint8_t \<times> wire" where
  "Wire_endTransmission stop w =
     (let c = codes w (ntx w);
          w' = w\<lparr>txbuf := [], ntx := Suc (ntx w), sent := txbuf w\<rparr>
      in (c, if c = 0 \<and> target w = MAX1704X_ADDR then deliver (txbuf w) w' else w'))"

definition Wire_requestFrom :: "uint8_t \<Rightarrow> nat \<Rightarrow> wire \<Rightarrow> wire" where
  "Wire_requestFrom a n w =
     (if a = MAX1704X_ADDR
      then w\<lparr>rxbuf := map (\<lambda>i. regs w (ptr w + of_nat i)) [0..<n], ptr := ptr w + of_nat n\<rparr>
      else w\<lparr>rxbuf := []\<rparr>)"

text \<open>\<^verbatim>\<open>Wire.read()\<close> returns an \<^verbatim>\<open>int\<close>: the next byte received, or -1 when there is none.\<close>

definition Wire_read :: "wire \<Rightarrow> int \<times> wire" where
  "Wire_read w = (case rxbuf w of [] \<Rightarrow> (- 1, w) | x # xs \<Rightarrow> (uint x, w\<lparr>rxbuf := xs\<rparr>))"

subsection \<open>Reading the configuration register\<close>

definition getCompensation :: "wire \<Rightarrow> uint8_t \<times> wire" where
  "getCompensation w =
     (let w = Wire_beginTransmission MAX1704X_ADDR w;
          w = Wire_write MAX1704X_RCOMP_ADDR w;
          (_, w) = Wire_endTransmission True w;
          w = Wire_requestFrom MAX1704X_ADDR 2 w;
          (r, w) = Wire_read w;
          MSB = (word_of_int r :: uint8_t)
      in (MSB, w))"

definition getStatus :: "wire \<Rightarrow> uint8_t \<times> wire" where
  "getStatus w =
     (let w = Wire_beginTransmission MAX1704X_ADDR w;
          w = Wire_write MAX1704X_ATHRD_ADDR w;
          (_, w) = Wire_endTransmission True w;
          w = Wire_requestFrom MAX1704X_ADDR 1 w;
          (r, w) = Wire_read w
      in (word_of_int r, w))"

text \<open>
  The two expressions on the threshold field, as the source writes them:
  \<^verbatim>\<open>( ~thrd + 1 ) & 0x1F\<close> in \<^verbatim>\<open>setAlertThreshold\<close> (after the clamp) and
  \<^verbatim>\<open>( ~getStatus() & 0x1F ) + 1\<close> in \<^verbatim>\<open>getAlertThreshold\<close>.
\<close>

definition clampThreshold :: "uint8_t \<Rightarrow> uint8_t" where
  "clampThreshold thrd = (if thrd > 32 then 32 else if thrd < 1 then 1 else thrd)"

definition encodeThreshold :: "uint8_t \<Rightarrow> uint8_t" where
  "encodeThreshold thrd = word_of_int ((NOT (uint thrd) + 1) AND 0x1F)"

definition decodeThreshold :: "uint8_t \<Rightarrow> uint8_t" where
  "decodeThreshold status = word_of_int ((NOT (uint status) AND 0x1F) + 1)"

definition getAlertThreshold :: "wire \<Rightarrow> uint8_t \<times> wire" where
  "getAlertThreshold w = (let (status, w) = getStatus w in (decodeThreshold status, w))"

definition sleeping :: "wire \<Rightarrow> bool \<times> wire" where
  "sleeping w = (let (status, w) = getStatus w in ((uint status AND 0x80) = 0x80, w))"

subsection \<open>Writing the configuration register\<close>

definition setCompensation :: "uint8_t \<Rightarrow> wire \<Rightarrow> uint8_t \<times> wire" where
  "setCompensation compv w =
     (let (status, w) = getStatus w;
          w = Wire_beginTransmission MAX1704X_ADDR w;
          w = Wire_write MAX1704X_CONFIG_ADDR w;
          w = Wire_write compv w;
          w = Wire_write status w
      in Wire_endTransmission True w)"

definition setAlertThreshold :: "uint8_t \<Rightarrow> wire \<Rightarrow> uint8_t \<times> wire" where
  "setAlertThreshold thrd w =
     (let thrd = clampThreshold thrd;
          thrd = encodeThreshold thrd;
          w = Wire_beginTransmission MAX1704X_ADDR w;
          w = Wire_write MAX1704X_CONFIG_ADDR w;
          (_, w) = Wire_endTransmission False w;
          w = Wire_requestFrom MAX1704X_ADDR 2 w;
          (r, w) = Wire_read w;
          compv = (word_of_int r :: uint8_t);
          (r, w) = Wire_read w;
          sleepBit = (word_of_int (r AND 0x80) :: uint8_t);
          w = Wire_beginTransmission MAX1704X_ADDR w;
          w = Wire_write MAX1704X_CONFIG_ADDR w;
          w = Wire_write compv w;
          w = Wire_write (word_of_int (uint sleepBit OR uint thrd)) w
      in Wire_endTransmission True w)"

definition clearAlertInterrupt :: "wire \<Rightarrow> uint8_t \<times> wire" where
  "clearAlertInterrupt w =
     (let (compensation, w) = getCompensation w;
          (status, w) = getStatus w;
          w = Wire_beginTransmission MAX1704X_ADDR w;
          w = Wire_write MAX1704X_CONFIG_ADDR w;
          w = Wire_write compensation w;
          w = Wire_write (word_of_int (0xDF AND uint status)) w
      in Wire_endTransmission True w)"

definition sleep :: "wire \<Rightarrow> uint8_t \<times> wire" where
  "sleep w =
     (let (compensation, w) = getCompensation w;
          (threshold, w) = getAlertThreshold w;
          w = Wire_beginTransmission MAX1704X_ADDR w;
          w = Wire_write MAX1704X_CONFIG_ADDR w;
          w = Wire_write compensation w;
          w = Wire_write (word_of_int (0x80 OR uint threshold)) w
      in Wire_endTransmission True w)"

definition wake :: "wire \<Rightarrow> uint8_t \<times> wire" where
  "wake w =
     (let (compensation, w) = getCompensation w;
          (threshold, w) = getAlertThreshold w;
          w = Wire_beginTransmission MAX1704X_ADDR w;
          w = Wire_write MAX1704X_CONFIG_ADDR w;
          w = Wire_write compensation w;
          w = Wire_write (word_of_int (0x7F AND uint threshold)) w
      in Wire_endTransmission True w)"

subsection \<open>Commands\<close>

definition quickStart :: "wire \<Rightarrow> uint8_t \<times> wire" where
  "quickStart w =
     (let w = Wire_beginTransmission MAX1704X_ADDR w;
          w = Wire_write MAX1704X_MODE_ADDR w;
          w = Wire_write 0x40 w;
          w = Wire_write 0x00 w
      in Wire_endTransmission True w)"

definition reset :: "wire \<Rightarrow> uint8_t \<times> wire" where
  "reset w =
     (let w = Wire_beginTransmission MAX1704X_ADDR w;
          w = Wire_write MAX1704X_COMMAND_ADDR w;
          w = Wire_write 0x54 w;
          w = Wire_write 0x00 w
      in Wire_endTransmission True w)"

subsection \<open>Measurements\<close>

text \<open>
  \<^verbatim>\<open>getVoltage\<close> returns a \<^verbatim>\<open>double\<close>. A floating-point number is modelled by its
  significand and exponent, \<open>(m, e)\<close> for \<open>m * 2 ^ e\<close>; every operation computes the exact
  result and rounds it to \<open>p\<close> significant bits, to nearest, ties to even; \<open>p\<close> is 24
  where \<^verbatim>\<open>double\<close> has 4 bytes (the AVR boards) and 53 where it has 8. The exponent is
  unbounded: the driver's values (some millivolts to some volts) are far from overflow
  and underflow.
\<close>

type_synonym fp = "int \<times> int"

definition fp_value :: "fp \<Rightarrow> rat" where
  "fp_value f = (if 0 \<le> snd f then of_int (fst f) * 2 ^ nat (snd f)
                 else of_int (fst f) / 2 ^ nat (- snd f))"

text \<open>The number of bits of a positive integer.\<close>

fun nbits :: "int \<Rightarrow> nat" where
  "nbits n = (if n \<le> 0 then 0 else Suc (nbits (n div 2)))"

declare nbits.simps [simp del]

text \<open>\<open>m / 2 ^ s\<close>, rounded to the nearest integer, a tie to the even one.\<close>

definition round_shift :: "nat \<Rightarrow> int \<Rightarrow> int" where
  "round_shift s m =
     (let q = m div 2 ^ s; r = m mod 2 ^ s
      in if 2 * r < 2 ^ s then q
         else if 2 * r > 2 ^ s then q + 1
         else if even q then q else q + 1)"

definition fp_round :: "nat \<Rightarrow> fp \<Rightarrow> fp" where
  "fp_round p f =
     (let n = nbits \<bar>fst f\<bar>
      in if n \<le> p then f else (round_shift (n - p) (fst f), snd f + int (n - p)))"

definition fp_mul :: "nat \<Rightarrow> fp \<Rightarrow> fp \<Rightarrow> fp" where
  "fp_mul p a b = fp_round p (fst a * fst b, snd a + snd b)"

text \<open>The conversion of an \<^verbatim>\<open>int\<close> operand to \<^verbatim>\<open>double\<close>.\<close>

definition fp_of_int :: "nat \<Rightarrow> int \<Rightarrow> fp" where
  "fp_of_int p n = fp_round p (n, 0)"

text \<open>
  A decimal literal: the quotient \<open>n / d\<close> of two positive integers, rounded once. The
  quotient is computed to at least \<open>p + 3\<close> bits, the last one recording whether the
  division left a remainder, so that the rounding sees on which side of a tie it is.
\<close>

definition fp_of_ratio :: "nat \<Rightarrow> int \<Rightarrow> int \<Rightarrow> fp" where
  "fp_of_ratio p n d =
     (let k = p + 2 + nbits d - nbits n;
          q = (n * 2 ^ k) div d;
          sticky = (if (n * 2 ^ k) mod d = 0 then 0 else 1)
      in fp_round p (2 * q + sticky, - int k - 1))"

text \<open>
  \<^verbatim>\<open>return ( (Wire.read() << 4) + (Wire.read() >> 4) ) * 0.00125 * _ic;\<close> The two calls of
  \<^verbatim>\<open>read\<close> are taken in the order in which they are written (C++ leaves the order of the
  operands of \<^verbatim>\<open>+\<close> to the compiler). The member \<^verbatim>\<open>_ic\<close> is the parameter \<open>ic\<close>.
\<close>

definition getVoltage :: "nat \<Rightarrow> gaugeType \<Rightarrow> wire \<Rightarrow> fp \<times> wire" where
  "getVoltage p ic w =
     (let (_, w) = reset w;
          (_, w) = quickStart w;
          w = Wire_beginTransmission MAX1704X_ADDR w;
          w = Wire_write MAX1704X_VCELL_ADDR w;
          (_, w) = Wire_endTransmission True w;
          w = Wire_requestFrom MAX1704X_ADDR 2 w;
          (r1, w) = Wire_read w;
          (r2, w) = Wire_read w
      in (fp_mul p (fp_mul p (fp_of_int p (push_bit 4 r1 + drop_bit 4 r2))
                      (fp_of_ratio p 125 100000))
            (fp_of_int p (gaugeType_value ic)), w))"

subsection \<open>Two recurring fragments\<close>

text \<open>
  Five methods end with the same four statements (\<^verbatim>\<open>beginTransmission\<close>, \<^verbatim>\<open>write\<close> of the
  CONFIG address, \<^verbatim>\<open>write\<close> of the two bytes) before \<^verbatim>\<open>return Wire.endTransmission()\<close>;
  \<open>writeConfig\<close> names that tail, and \<open>readPair\<close> names the two-byte read that opens
  \<^verbatim>\<open>setAlertThreshold\<close> and closes \<^verbatim>\<open>getVoltage\<close>. They are used to state lemmas, the
  methods are defined without them.
\<close>

definition writeConfig :: "uint8_t \<Rightarrow> uint8_t \<Rightarrow> wire \<Rightarrow> uint8_t \<times> wire" where
  "writeConfig a b w =
     Wire_endTransmission True (Wire_write b (Wire_write a
       (Wire_write MAX1704X_CONFIG_ADDR (Wire_beginTransmission MAX1704X_ADDR w))))"

definition readPair :: "bool \<Rightarrow> uint8_t \<Rightarrow> wire \<Rightarrow> (int \<times> int) \<times> wire" where
  "readPair stop a w =
     (let w = Wire_beginTransmission MAX1704X_ADDR w;
          w = Wire_write a w;
          (_, w) = Wire_endTransmission stop w;
          w = Wire_requestFrom MAX1704X_ADDR 2 w;
          (r1, w) = Wire_read w;
          (r2, w) = Wire_read w
      in ((r1, r2), w))"

text \<open>
  A bus at rest in front of a chip whose configuration register holds the compensation
  byte \<open>c\<close> and the status byte \<open>s\<close>, with a transport that completes every transaction.
\<close>

definition chip :: "uint8_t \<Rightarrow> uint8_t \<Rightarrow> wire" where
  "chip c s =
     \<lparr>regs = (\<lambda>_. 0)(MAX1704X_CONFIG_ADDR := c, MAX1704X_ATHRD_ADDR := s),
      ptr = 0, target = 0, txbuf = [], rxbuf = [], codes = (\<lambda>_. 0), ntx = 0, sent = []\<rparr>"

section \<open>Bit arithmetic of the promoted operands\<close>

lemmas addr_defs =
  MAX1704X_ADDR_def MAX1704X_VCELL_ADDR_def MAX1704X_SOC_ADDR_def MAX1704X_MODE_ADDR_def
  MAX1704X_VERSION_ADDR_def MAX1704X_CONFIG_ADDR_def MAX1704X_RCOMP_ADDR_def
  MAX1704X_ATHRD_ADDR_def MAX1704X_COMMAND_ADDR_def

lemma and_0x1F: "(k::int) AND 0x1F = k mod 32"
  using take_bit_eq_mask [of 5 k] by (simp add: take_bit_eq_mod mask_eq_exp_minus_1)

lemma and_exp_eq_exp_iff_bit: "((k::int) AND 2 ^ n = 2 ^ n) = bit k n"
proof
  assume "k AND 2 ^ n = 2 ^ n"
  then have "bit (k AND 2 ^ n) n = bit (2 ^ n :: int) n" by simp
  then show "bit k n" by (simp add: bit_simps)
next
  assume k: "bit k n"
  show "k AND 2 ^ n = 2 ^ n"
    by (rule bit_eqI) (use k in \<open>auto simp: bit_simps\<close>)
qed

lemma uint_and_0x80: "(uint (s::uint8_t) AND 0x80 = 0x80) = bit s 7"
  using and_exp_eq_exp_iff_bit [of "uint s" 7] by (simp add: bit_uint_iff)

lemma clear_alert_byte: "(word_of_int (0xDF AND uint s) :: uint8_t) = s AND 0xDF"
  by (simp add: of_int_and_eq ac_simps)

lemma sleep_byte: "(word_of_int (0x80 OR uint t) :: uint8_t) = t OR 0x80"
  by (simp add: of_int_or_eq ac_simps)

lemma wake_byte: "(word_of_int (0x7F AND uint t) :: uint8_t) = t AND 0x7F"
  by (simp add: of_int_and_eq ac_simps)

lemma threshold_byte:
  "(word_of_int (uint (word_of_int (uint x AND 0x80) :: uint8_t) OR uint e) :: uint8_t)
     = (x AND 0x80) OR e"
  by (simp add: of_int_and_eq of_int_or_eq ac_simps)

lemma encodeThreshold_word: "encodeThreshold thrd = (- thrd) AND 0x1F"
  by (simp add: encodeThreshold_def of_int_and_eq of_int_not_eq minus_eq_not_plus_1)

lemma uint_encodeThreshold: "uint (encodeThreshold thrd) = (- uint thrd) mod 32"
proof -
  have "(NOT (uint thrd) + 1) AND 0x1F = (- uint thrd) mod 32"
    by (simp add: and_0x1F not_int_def)
  moreover have "0 \<le> (- uint thrd) mod 32" and "(- uint thrd) mod 32 < 32"
    by simp_all
  ultimately show ?thesis
    apply (simp only: encodeThreshold_def uint_word_of_int)
    apply (simp add: take_bit_eq_mod)
    done
qed

lemma uint_decodeThreshold: "uint (decodeThreshold status) = (- uint status - 1) mod 32 + 1"
proof -
  have "(NOT (uint status) AND 0x1F) + 1 = (- uint status - 1) mod 32 + 1"
    by (simp add: and_0x1F not_int_def)
  moreover have "0 \<le> (- uint status - 1) mod 32" and "(- uint status - 1) mod 32 < 32"
    by simp_all
  ultimately show ?thesis
    apply (simp only: decodeThreshold_def uint_word_of_int)
    apply (simp add: take_bit_eq_mod)
    done
qed

lemma uint_clampThreshold: "uint (clampThreshold thrd) = max 1 (min 32 (uint thrd))"
  by (simp add: clampThreshold_def word_less_def word_le_def max_def min_def)

lemma decodeThreshold_range: "1 \<le> decodeThreshold status \<and> decodeThreshold status \<le> 32"
proof -
  have "0 \<le> (- uint status - 1) mod 32" and "(- uint status - 1) mod 32 < 32"
    by simp_all
  then show ?thesis
    by (simp add: word_le_def uint_decodeThreshold)
qed

lemma neg_mod_32:
  assumes "0 < (x::int)" and "x \<le> 32"
  shows "(- x) mod 32 = 32 - x"
  by (rule int_mod_pos_eq [where q = "- 1"]) (use assms in simp_all)

lemma decode_encode:
  assumes "1 \<le> uint p" and "uint p \<le> 32"
  shows "decodeThreshold (encodeThreshold p) = p"
proof -
  have e: "(- uint p) mod 32 = 32 - uint p"
    using assms by (simp add: neg_mod_32)
  have "(- (32 - uint p) - 1) mod 32 = uint p - 1"
    by (rule int_mod_pos_eq [where q = "- 1"]) (use assms in simp_all)
  then have "uint (decodeThreshold (encodeThreshold p)) = uint p"
    by (simp only: uint_decodeThreshold uint_encodeThreshold e)
  then show ?thesis by (simp only: word_uint_eq_iff)
qed

lemma decode_sleep_or:
  "decodeThreshold ((x AND 0x80) OR e) = decodeThreshold e"
proof -
  have "take_bit 5 (uint ((x AND 0x80) OR e)) = take_bit 5 (uint e)"
    by (simp add: uint_or uint_and take_bit_or take_bit_and)
  then have "uint ((x AND 0x80) OR e) mod 32 = uint e mod 32"
    by (simp add: take_bit_eq_mod)
  then have "(- uint ((x AND 0x80) OR e)) mod 32 = (- uint e) mod 32"
    by (metis mod_minus_eq)
  then have "(- uint ((x AND 0x80) OR e) - 1) mod 32 = (- uint e - 1) mod 32"
    by (metis mod_diff_left_eq)
  then have "uint (decodeThreshold ((x AND 0x80) OR e)) = uint (decodeThreshold e)"
    by (simp only: uint_decodeThreshold)
  then show ?thesis by (simp only: word_uint_eq_iff)
qed

section \<open>What each method does on the bus\<close>

lemmas wire_defs = Wire_beginTransmission_def Wire_write_def
  Wire_endTransmission_def Wire_requestFrom_def Wire_read_def

lemma getStatus_eq:
  "getStatus w =
     (let p = (if codes w (ntx w) = 0 then MAX1704X_ATHRD_ADDR else ptr w)
      in (regs w p,
          w\<lparr>ptr := p + 1, target := MAX1704X_ADDR, txbuf := [], rxbuf := [],
            ntx := Suc (ntx w), sent := [MAX1704X_ATHRD_ADDR]\<rparr>))"
  by (simp add: getStatus_def wire_defs Let_def)

lemma getCompensation_eq:
  "getCompensation w =
     (let p = (if codes w (ntx w) = 0 then MAX1704X_RCOMP_ADDR else ptr w)
      in (regs w p,
          w\<lparr>ptr := p + 2, target := MAX1704X_ADDR, txbuf := [], rxbuf := [regs w (p + 1)],
            ntx := Suc (ntx w), sent := [MAX1704X_RCOMP_ADDR]\<rparr>))"
  by (simp add: getCompensation_def wire_defs Let_def upt_rec)

lemma readPair_eq:
  "readPair stop a w =
     (let p = (if codes w (ntx w) = 0 then a else ptr w)
      in ((uint (regs w p), uint (regs w (p + 1))),
          w\<lparr>ptr := p + 2, target := MAX1704X_ADDR, txbuf := [], rxbuf := [],
            ntx := Suc (ntx w), sent := [a]\<rparr>))"
  by (simp add: readPair_def wire_defs Let_def upt_rec)

lemma writeConfig_eq:
  "writeConfig a b w =
     (codes w (ntx w),
      (if codes w (ntx w) = 0
       then w\<lparr>regs := (regs w)(MAX1704X_CONFIG_ADDR := a, MAX1704X_ATHRD_ADDR := b),
              ptr := MAX1704X_ATHRD_ADDR + 1\<rparr>
       else w)
      \<lparr>target := MAX1704X_ADDR, txbuf := [], ntx := Suc (ntx w),
       sent := [MAX1704X_CONFIG_ADDR, a, b]\<rparr>)"
  by (simp add: writeConfig_def wire_defs Let_def addr_defs)

lemma command_eq:
  "Wire_endTransmission True (Wire_write b (Wire_write a
       (Wire_write r (Wire_beginTransmission MAX1704X_ADDR w)))) =
     (codes w (ntx w),
      (if codes w (ntx w) = 0
       then w\<lparr>regs := (regs w)(r := a, r + 1 := b), ptr := r + 2\<rparr>
       else w)
      \<lparr>target := MAX1704X_ADDR, txbuf := [], ntx := Suc (ntx w), sent := [r, a, b]\<rparr>)"
  by (simp add: wire_defs Let_def)

lemma getAlertThreshold_eq:
  "getAlertThreshold w = (decodeThreshold (fst (getStatus w)), snd (getStatus w))"
  by (simp add: getAlertThreshold_def split: prod.splits)

lemma sleeping_eq:
  "sleeping w = (bit (fst (getStatus w)) 7, snd (getStatus w))"
  by (simp add: sleeping_def uint_and_0x80 split: prod.splits)

lemma setCompensation_eq:
  "setCompensation c w = writeConfig c (fst (getStatus w)) (snd (getStatus w))"
  by (simp add: setCompensation_def writeConfig_def Let_def split: prod.splits)

lemma clearAlertInterrupt_eq:
  "clearAlertInterrupt w =
     (let (c, w) = getCompensation w; (s, w) = getStatus w
      in writeConfig c (s AND 0xDF) w)"
  by (simp add: clearAlertInterrupt_def writeConfig_def Let_def clear_alert_byte
      split: prod.splits)

lemma sleep_eq:
  "sleep w =
     (let (c, w) = getCompensation w; (s, w) = getStatus w
      in writeConfig c (decodeThreshold s OR 0x80) w)"
  by (simp add: sleep_def writeConfig_def getAlertThreshold_def Let_def sleep_byte
      split: prod.splits)

lemma wake_eq:
  "wake w =
     (let (c, w) = getCompensation w; (s, w) = getStatus w
      in writeConfig c (decodeThreshold s AND 0x7F) w)"
  by (simp add: wake_def writeConfig_def getAlertThreshold_def Let_def wake_byte
      split: prod.splits)

lemma setAlertThreshold_eq:
  "setAlertThreshold thrd w =
     (let ((r1, r2), w) = readPair False MAX1704X_CONFIG_ADDR w
      in writeConfig (word_of_int r1)
           (word_of_int (uint (word_of_int (r2 AND 0x80) :: uint8_t)
              OR uint (encodeThreshold (clampThreshold thrd)))) w)"
  unfolding setAlertThreshold_def readPair_def writeConfig_def Let_def
  by (simp split: prod.splits)

lemma quickStart_eq:
  "quickStart w =
     (codes w (ntx w),
      (if codes w (ntx w) = 0
       then w\<lparr>regs := (regs w)(MAX1704X_MODE_ADDR := 0x40, MAX1704X_MODE_ADDR + 1 := 0),
              ptr := MAX1704X_MODE_ADDR + 2\<rparr>
       else w)
      \<lparr>target := MAX1704X_ADDR, txbuf := [], ntx := Suc (ntx w),
       sent := [MAX1704X_MODE_ADDR, 0x40, 0]\<rparr>)"
  unfolding quickStart_def Let_def by (rule command_eq)

lemma reset_eq:
  "reset w =
     (codes w (ntx w),
      (if codes w (ntx w) = 0
       then w\<lparr>regs := (regs w)(MAX1704X_COMMAND_ADDR := 0x54, MAX1704X_COMMAND_ADDR + 1 := 0),
              ptr := MAX1704X_COMMAND_ADDR + 2\<rparr>
       else w)
      \<lparr>target := MAX1704X_ADDR, txbuf := [], ntx := Suc (ntx w),
       sent := [MAX1704X_COMMAND_ADDR, 0x54, 0]\<rparr>)"
  unfolding reset_def Let_def by (rule command_eq)

section \<open>The threshold field and the getters\<close>

lemma config_addrs:
  "MAX1704X_RCOMP_ADDR = MAX1704X_CONFIG_ADDR" "MAX1704X_CONFIG_ADDR + 1 = MAX1704X_ATHRD_ADDR"
  "MAX1704X_ATHRD_ADDR \<noteq> MAX1704X_CONFIG_ADDR" "MAX1704X_CONFIG_ADDR \<noteq> MAX1704X_ATHRD_ADDR"
  by (simp_all add: addr_defs)

text \<open>
  Claim C3. For every percent from 1 to 32, decoding the encoded threshold gives the
  percent back: the expression of \<^verbatim>\<open>getAlertThreshold\<close> undoes the expression of
  \<^verbatim>\<open>setAlertThreshold\<close>, and the field holds \<open>(- percent) mod 32\<close>.
\<close>

theorem threshold_encoding_roundtrip:
  fixes percent :: uint8_t
  assumes "1 \<le> percent" and "percent \<le> 32"
  shows "decodeThreshold (encodeThreshold percent) = percent
       \<and> uint (encodeThreshold percent) = (- uint percent) mod 32"
  using assms by (simp add: decode_encode uint_encodeThreshold word_le_def)

theorem threshold_encoding_roundtrip_witness:
  "(1::uint8_t) \<le> 4 \<and> (4::uint8_t) \<le> 32 \<and> decodeThreshold (encodeThreshold 4) = 4
     \<and> encodeThreshold 4 = 0x1C"
  using threshold_encoding_roundtrip [of 4] by (simp add: encodeThreshold_word)

text \<open>
  Claim C10. Whatever the status byte is, and whatever the bus delivers, the threshold
  that \<^verbatim>\<open>getAlertThreshold\<close> returns lies between 1 and 32.
\<close>

theorem getAlertThreshold_range:
  "1 \<le> decodeThreshold status \<and> decodeThreshold status \<le> 32
   \<and> 1 \<le> fst (getAlertThreshold w) \<and> fst (getAlertThreshold w) \<le> 32"
  by (simp add: getAlertThreshold_eq decodeThreshold_range)

text \<open>
  Claim C8. \<^verbatim>\<open>getCompensation\<close> has two bytes transferred in one transaction and returns
  the first, the compensation byte; the status byte stays unread in the receive buffer
  and has no influence on the result.
\<close>

theorem getCompensation_first_byte:
  assumes "codes w (ntx w) = 0"
  shows "fst (getCompensation w) = regs w MAX1704X_RCOMP_ADDR
       \<and> rxbuf (snd (getCompensation w)) = [regs w MAX1704X_ATHRD_ADDR]
       \<and> ntx (snd (getCompensation w)) = ntx w + 1
       \<and> fst (getCompensation (w\<lparr>regs := (regs w)(MAX1704X_ATHRD_ADDR := v)\<rparr>))
           = fst (getCompensation w)"
  using assms by (simp add: getCompensation_eq addr_defs)

theorem getCompensation_first_byte_witness:
  "codes (chip 0x97 0x1C) (ntx (chip 0x97 0x1C)) = 0
   \<and> fst (getCompensation (chip 0x97 0x1C)) = 0x97
   \<and> rxbuf (snd (getCompensation (chip 0x97 0x1C))) = [0x1C]"
  using getCompensation_first_byte [of "chip 0x97 0x1C" 0]
  by (simp add: chip_def addr_defs)

section \<open>Completion codes\<close>

text \<open>
  Claim C9. Each of the seven writing methods returns the completion code of the
  transaction that closes it, as the transport produced it, whatever that code is, and
  closes no further transaction: the reads before it take one or two transactions, the
  write exactly one.
\<close>

theorem write_ops_return_completion_code:
  "fst (setCompensation c w) = codes w (ntx w + 1)
   \<and> ntx (snd (setCompensation c w)) = ntx w + 2
   \<and> fst (setAlertThreshold thrd w) = codes w (ntx w + 1)
   \<and> ntx (snd (setAlertThreshold thrd w)) = ntx w + 2
   \<and> fst (clearAlertInterrupt w) = codes w (ntx w + 2)
   \<and> ntx (snd (clearAlertInterrupt w)) = ntx w + 3
   \<and> fst (sleep w) = codes w (ntx w + 2)
   \<and> ntx (snd (sleep w)) = ntx w + 3
   \<and> fst (wake w) = codes w (ntx w + 2)
   \<and> ntx (snd (wake w)) = ntx w + 3
   \<and> fst (quickStart w) = codes w (ntx w)
   \<and> ntx (snd (quickStart w)) = ntx w + 1
   \<and> fst (reset w) = codes w (ntx w)
   \<and> ntx (snd (reset w)) = ntx w + 1"
proof -
  have 1: "fst (setCompensation c w) = codes w (ntx w + 1)
      \<and> ntx (snd (setCompensation c w)) = ntx w + 2"
    by (simp add: setCompensation_eq writeConfig_eq getStatus_eq Let_def)
  have 2: "fst (setAlertThreshold thrd w) = codes w (ntx w + 1)
      \<and> ntx (snd (setAlertThreshold thrd w)) = ntx w + 2"
    by (simp add: setAlertThreshold_eq writeConfig_eq readPair_eq Let_def)
  have 3: "fst (clearAlertInterrupt w) = codes w (ntx w + 2)
      \<and> ntx (snd (clearAlertInterrupt w)) = ntx w + 3"
    by (simp add: clearAlertInterrupt_eq writeConfig_eq getStatus_eq getCompensation_eq Let_def)
  have 4: "fst (sleep w) = codes w (ntx w + 2) \<and> ntx (snd (sleep w)) = ntx w + 3"
    by (simp add: sleep_eq writeConfig_eq getStatus_eq getCompensation_eq Let_def)
  have 5: "fst (wake w) = codes w (ntx w + 2) \<and> ntx (snd (wake w)) = ntx w + 3"
    by (simp add: wake_eq writeConfig_eq getStatus_eq getCompensation_eq Let_def)
  have 6: "fst (quickStart w) = codes w (ntx w) \<and> ntx (snd (quickStart w)) = ntx w + 1"
    by (simp add: quickStart_eq)
  have 7: "fst (reset w) = codes w (ntx w) \<and> ntx (snd (reset w)) = ntx w + 1"
    by (simp add: reset_eq)
  from 1 2 3 4 5 6 7 show ?thesis by blast
qed

section \<open>Sleep, wake and the alert flag\<close>

lemma sleep_bits: "bit (t OR (0x80::uint8_t)) 7"
  by (simp add: bit_simps)

lemma wake_bits: "\<not> bit (t AND (0x7F::uint8_t)) 7"
  by (simp add: bit_simps)

text \<open>
  Claim C6. When the bus completes its transactions, \<^verbatim>\<open>sleeping\<close> answers true after
  \<^verbatim>\<open>sleep\<close> and false after \<^verbatim>\<open>wake\<close>: bit 7 of the status byte written is set and clear
  respectively, and \<^verbatim>\<open>sleeping\<close> reports bit 7 of the status byte.
\<close>

theorem sleep_wake_sleeping:
  assumes "codes w (ntx w) = 0" and "codes w (ntx w + 1) = 0"
    and "codes w (ntx w + 2) = 0" and "codes w (ntx w + 3) = 0"
  shows "fst (sleeping (snd (sleep w))) \<and> \<not> fst (sleeping (snd (wake w)))
       \<and> bit (regs (snd (sleep w)) MAX1704X_ATHRD_ADDR) 7
       \<and> \<not> bit (regs (snd (wake w)) MAX1704X_ATHRD_ADDR) 7
       \<and> fst (sleeping w) = bit (regs w MAX1704X_ATHRD_ADDR) 7"
proof -
  have s: "regs (snd (sleep w)) MAX1704X_ATHRD_ADDR
             = decodeThreshold (regs w MAX1704X_ATHRD_ADDR) OR 0x80"
    using assms by (simp add: sleep_eq writeConfig_eq getStatus_eq getCompensation_eq Let_def)
  have k: "regs (snd (wake w)) MAX1704X_ATHRD_ADDR
             = decodeThreshold (regs w MAX1704X_ATHRD_ADDR) AND 0x7F"
    using assms by (simp add: wake_eq writeConfig_eq getStatus_eq getCompensation_eq Let_def)
  have a3: "codes w (Suc (Suc (Suc (ntx w)))) = 0"
    using assms(4) by (simp add: eval_nat_numeral)
  have s': "fst (sleeping (snd (sleep w))) = bit (regs (snd (sleep w)) MAX1704X_ATHRD_ADDR) 7"
    using assms a3 by (simp add: sleeping_eq sleep_eq writeConfig_eq getStatus_eq getCompensation_eq Let_def)
  have k': "fst (sleeping (snd (wake w))) = bit (regs (snd (wake w)) MAX1704X_ATHRD_ADDR) 7"
    using assms a3 by (simp add: sleeping_eq wake_eq writeConfig_eq getStatus_eq getCompensation_eq Let_def)
  have n: "fst (sleeping w) = bit (regs w MAX1704X_ATHRD_ADDR) 7"
    using assms by (simp add: sleeping_eq getStatus_eq)
  show ?thesis
    by (simp only: s' k' n s k sleep_bits wake_bits) simp
qed

theorem sleep_wake_sleeping_witness:
  "codes (chip 0x97 0x1C) (ntx (chip 0x97 0x1C)) = 0
   \<and> codes (chip 0x97 0x1C) (ntx (chip 0x97 0x1C) + 1) = 0
   \<and> codes (chip 0x97 0x1C) (ntx (chip 0x97 0x1C) + 2) = 0
   \<and> codes (chip 0x97 0x1C) (ntx (chip 0x97 0x1C) + 3) = 0
   \<and> fst (sleeping (snd (sleep (chip 0x97 0x1C))))
   \<and> \<not> fst (sleeping (snd (wake (chip 0x97 0x1C))))
   \<and> \<not> fst (sleeping (chip 0x97 0x1C))"
proof -
  have c: "codes (chip 0x97 0x1C) n = 0" for n by (simp add: chip_def)
  have "regs (chip 0x97 0x1C) MAX1704X_ATHRD_ADDR = 0x1C" by (simp add: chip_def)
  moreover have "\<not> bit (0x1C :: uint8_t) 7" by simp
  ultimately show ?thesis
    using sleep_wake_sleeping [of "chip 0x97 0x1C", OF c c c c] by (simp add: c)
qed

text \<open>
  Claim C5. When the bus completes its transactions, \<^verbatim>\<open>clearAlertInterrupt\<close> sends the
  compensation byte as it was and the status byte with bit 5 cleared (\<open>AND 0xDF\<close>); bit 7
  and bits 4 to 0 keep their values.
\<close>

theorem clearAlertInterrupt_clears_alert_flag:
  assumes "codes w (ntx w) = 0" and "codes w (ntx w + 1) = 0" and "codes w (ntx w + 2) = 0"
  shows "sent (snd (clearAlertInterrupt w))
           = [MAX1704X_CONFIG_ADDR, regs w MAX1704X_RCOMP_ADDR, regs w MAX1704X_ATHRD_ADDR AND 0xDF]
       \<and> regs (snd (clearAlertInterrupt w)) MAX1704X_RCOMP_ADDR = regs w MAX1704X_RCOMP_ADDR
       \<and> regs (snd (clearAlertInterrupt w)) MAX1704X_ATHRD_ADDR
           = regs w MAX1704X_ATHRD_ADDR AND 0xDF
       \<and> \<not> bit (regs (snd (clearAlertInterrupt w)) MAX1704X_ATHRD_ADDR) 5
       \<and> bit (regs (snd (clearAlertInterrupt w)) MAX1704X_ATHRD_ADDR) 7
           = bit (regs w MAX1704X_ATHRD_ADDR) 7
       \<and> regs (snd (clearAlertInterrupt w)) MAX1704X_ATHRD_ADDR AND 0x1F
           = regs w MAX1704X_ATHRD_ADDR AND 0x1F"
proof -
  have snt: "sent (snd (clearAlertInterrupt w))
      = [MAX1704X_CONFIG_ADDR, regs w MAX1704X_RCOMP_ADDR, regs w MAX1704X_ATHRD_ADDR AND 0xDF]"
    using assms
    by (simp add: clearAlertInterrupt_eq writeConfig_eq getStatus_eq getCompensation_eq Let_def)
  have cmp: "regs (snd (clearAlertInterrupt w)) MAX1704X_RCOMP_ADDR = regs w MAX1704X_RCOMP_ADDR"
    using assms
    by (simp add: clearAlertInterrupt_eq writeConfig_eq getStatus_eq getCompensation_eq Let_def
        addr_defs)
  have st: "regs (snd (clearAlertInterrupt w)) MAX1704X_ATHRD_ADDR
      = regs w MAX1704X_ATHRD_ADDR AND 0xDF"
    using assms
    by (simp add: clearAlertInterrupt_eq writeConfig_eq getStatus_eq getCompensation_eq Let_def)
  have b5: "\<not> bit (s AND (0xDF::uint8_t)) 5" for s by (simp add: bit_simps)
  have b7: "bit (s AND (0xDF::uint8_t)) 7 = bit s 7" for s by (simp add: bit_simps)
  have lo: "(s AND (0xDF::uint8_t)) AND 0x1F = s AND 0x1F" for s by (simp add: and.assoc)
  show ?thesis
    by (simp only: snt cmp st b5 b7 lo) simp
qed

theorem clearAlertInterrupt_clears_alert_flag_witness:
  "codes (chip 0x97 0x3C) (ntx (chip 0x97 0x3C)) = 0
   \<and> codes (chip 0x97 0x3C) (ntx (chip 0x97 0x3C) + 1) = 0
   \<and> codes (chip 0x97 0x3C) (ntx (chip 0x97 0x3C) + 2) = 0
   \<and> regs (snd (clearAlertInterrupt (chip 0x97 0x3C))) MAX1704X_RCOMP_ADDR = 0x97
   \<and> regs (snd (clearAlertInterrupt (chip 0x97 0x3C))) MAX1704X_ATHRD_ADDR = 0x1C"
proof -
  have c: "codes (chip 0x97 0x3C) n = 0" for n by (simp add: chip_def)
  have "regs (chip 0x97 0x3C) MAX1704X_ATHRD_ADDR = 0x3C"
    and "regs (chip 0x97 0x3C) MAX1704X_RCOMP_ADDR = 0x97"
    by (simp_all add: chip_def addr_defs)
  then show ?thesis
    using clearAlertInterrupt_clears_alert_flag [of "chip 0x97 0x3C", OF c c c] by (simp add: c)
qed

section \<open>Setting the alert threshold\<close>

lemma clampThreshold_range: "1 \<le> uint (clampThreshold thrd) \<and> uint (clampThreshold thrd) \<le> 32"
  by (simp add: uint_clampThreshold)

lemma unat_clampThreshold: "unat (clampThreshold thrd) = max 1 (min 32 (unat thrd))"
  by (simp add: clampThreshold_def word_less_nat_alt max_def min_def) 

lemma setAlertThreshold_acked:
  assumes "codes w (ntx w) = 0" and "codes w (ntx w + 1) = 0"
  shows "snd (setAlertThreshold thrd w) =
     w\<lparr>regs := (regs w)(MAX1704X_CONFIG_ADDR := regs w MAX1704X_CONFIG_ADDR,
           MAX1704X_ATHRD_ADDR := (regs w MAX1704X_ATHRD_ADDR AND 0x80)
              OR encodeThreshold (clampThreshold thrd)),
       ptr := MAX1704X_ATHRD_ADDR + 1, target := MAX1704X_ADDR, txbuf := [], rxbuf := [],
       ntx := ntx w + 2,
       sent := [MAX1704X_CONFIG_ADDR, regs w MAX1704X_CONFIG_ADDR,
                (regs w MAX1704X_ATHRD_ADDR AND 0x80) OR encodeThreshold (clampThreshold thrd)]\<rparr>"
  using assms
  by (simp add: setAlertThreshold_eq readPair_eq writeConfig_eq Let_def threshold_byte
      config_addrs)

text \<open>
  Claim C4. For every input byte and every register state, when the bus completes its
  transactions, \<^verbatim>\<open>setAlertThreshold\<close> reports success, \<^verbatim>\<open>getAlertThreshold\<close> then
  returns the input clamped to 1..32, and the compensation byte and bit 7 of the status
  byte are what they were.
\<close>

theorem setAlertThreshold_roundtrip:
  assumes "codes w (ntx w) = 0" and "codes w (ntx w + 1) = 0" and "codes w (ntx w + 2) = 0"
  shows "unat (fst (getAlertThreshold (snd (setAlertThreshold thrd w))))
           = max 1 (min 32 (unat thrd))
       \<and> fst (setAlertThreshold thrd w) = 0
       \<and> regs (snd (setAlertThreshold thrd w)) MAX1704X_RCOMP_ADDR = regs w MAX1704X_RCOMP_ADDR
       \<and> bit (regs (snd (setAlertThreshold thrd w)) MAX1704X_ATHRD_ADDR) 7
           = bit (regs w MAX1704X_ATHRD_ADDR) 7"
proof -
  let ?e = "encodeThreshold (clampThreshold thrd)"
  let ?s = "(regs w MAX1704X_ATHRD_ADDR AND 0x80) OR ?e"
  have st: "regs (snd (setAlertThreshold thrd w)) MAX1704X_ATHRD_ADDR = ?s"
    by (simp add: setAlertThreshold_acked [OF assms(1,2)])
  have cmp: "regs (snd (setAlertThreshold thrd w)) MAX1704X_RCOMP_ADDR = regs w MAX1704X_RCOMP_ADDR"
    by (simp add: setAlertThreshold_acked [OF assms(1,2)] addr_defs)
  have rc: "fst (setAlertThreshold thrd w) = 0"
    using assms by (simp add: setAlertThreshold_eq readPair_eq writeConfig_eq Let_def)
  have "fst (getAlertThreshold (snd (setAlertThreshold thrd w))) = decodeThreshold ?s"
    using assms(3)
    by (simp add: getAlertThreshold_eq getStatus_eq setAlertThreshold_acked [OF assms(1,2)])
  also have "\<dots> = decodeThreshold ?e" by (rule decode_sleep_or)
  also have "\<dots> = clampThreshold thrd"
    using clampThreshold_range [of thrd] by (simp add: decode_encode)
  finally have rt: "unat (fst (getAlertThreshold (snd (setAlertThreshold thrd w))))
      = max 1 (min 32 (unat thrd))"
    by (simp only: unat_clampThreshold)
  have b7: "bit ?s 7 = bit (regs w MAX1704X_ATHRD_ADDR) 7"
    by (simp add: encodeThreshold_word bit_simps)
  show ?thesis
    by (simp only: rt rc cmp st b7)
qed

theorem setAlertThreshold_roundtrip_witness:
  "codes (chip 0x97 0x1C) (ntx (chip 0x97 0x1C)) = 0
   \<and> codes (chip 0x97 0x1C) (ntx (chip 0x97 0x1C) + 1) = 0
   \<and> codes (chip 0x97 0x1C) (ntx (chip 0x97 0x1C) + 2) = 0
   \<and> fst (getAlertThreshold (snd (setAlertThreshold 10 (chip 0x97 0x1C)))) = 10
   \<and> fst (getAlertThreshold (snd (setAlertThreshold 0 (chip 0x97 0x1C)))) = 1
   \<and> fst (getAlertThreshold (snd (setAlertThreshold 99 (chip 0x97 0x1C)))) = 32
   \<and> regs (snd (setAlertThreshold 10 (chip 0x97 0x1C))) MAX1704X_RCOMP_ADDR = 0x97"
proof -
  have c: "codes (chip 0x97 0x1C) n = 0" for n by (simp add: chip_def)
  have r: "regs (chip 0x97 0x1C) MAX1704X_RCOMP_ADDR = 0x97"
    by (simp add: chip_def addr_defs)
  have u: "unat x = n \<Longrightarrow> x = of_nat n" for x :: uint8_t and n by auto
  show ?thesis
    using setAlertThreshold_roundtrip [of "chip 0x97 0x1C" 10, OF c c c]
      setAlertThreshold_roundtrip [of "chip 0x97 0x1C" 0, OF c c c]
      setAlertThreshold_roundtrip [of "chip 0x97 0x1C" 99, OF c c c]
    by (auto simp: c r dest!: u)
qed

section \<open>What the writes preserve\<close>

lemma chip_codes: "codes (chip c s) n = 0"
  by (simp add: chip_def)

lemma chip_regs:
  "regs (chip c s) MAX1704X_CONFIG_ADDR = c" "regs (chip c s) MAX1704X_RCOMP_ADDR = c"
  "regs (chip c s) MAX1704X_ATHRD_ADDR = s"
  by (simp_all add: chip_def addr_defs)

lemma sleep_acked:
  assumes "codes w (ntx w) = 0" and "codes w (ntx w + 1) = 0" and "codes w (ntx w + 2) = 0"
  shows "regs (snd (sleep w)) =
           (regs w)(MAX1704X_CONFIG_ADDR := regs w MAX1704X_CONFIG_ADDR,
             MAX1704X_ATHRD_ADDR := decodeThreshold (regs w MAX1704X_ATHRD_ADDR) OR 0x80)"
  using assms
  by (simp add: sleep_eq writeConfig_eq getStatus_eq getCompensation_eq Let_def config_addrs)

lemma wake_acked:
  assumes "codes w (ntx w) = 0" and "codes w (ntx w + 1) = 0" and "codes w (ntx w + 2) = 0"
  shows "regs (snd (wake w)) =
           (regs w)(MAX1704X_CONFIG_ADDR := regs w MAX1704X_CONFIG_ADDR,
             MAX1704X_ATHRD_ADDR := decodeThreshold (regs w MAX1704X_ATHRD_ADDR) AND 0x7F)"
  using assms
  by (simp add: wake_eq writeConfig_eq getStatus_eq getCompensation_eq Let_def config_addrs)

lemma clearAlertInterrupt_acked:
  assumes "codes w (ntx w) = 0" and "codes w (ntx w + 1) = 0" and "codes w (ntx w + 2) = 0"
  shows "regs (snd (clearAlertInterrupt w)) =
           (regs w)(MAX1704X_CONFIG_ADDR := regs w MAX1704X_CONFIG_ADDR,
             MAX1704X_ATHRD_ADDR := regs w MAX1704X_ATHRD_ADDR AND 0xDF)"
  using assms
  by (simp add: clearAlertInterrupt_eq writeConfig_eq getStatus_eq getCompensation_eq Let_def
      config_addrs)

lemma setCompensation_acked:
  assumes "codes w (ntx w) = 0" and "codes w (ntx w + 1) = 0"
  shows "regs (snd (setCompensation c w)) =
           (regs w)(MAX1704X_CONFIG_ADDR := c,
             MAX1704X_ATHRD_ADDR := regs w MAX1704X_ATHRD_ADDR)"
  using assms
  by (simp add: setCompensation_eq writeConfig_eq getStatus_eq Let_def)

text \<open>
  Claim C1, as amended. When the bus completes its transactions: \<^verbatim>\<open>setCompensation\<close>
  leaves the status byte as it was; \<^verbatim>\<open>setAlertThreshold\<close> leaves the compensation byte and
  bit 7 of the status byte as they were and clears bits 6 and 5; \<^verbatim>\<open>clearAlertInterrupt\<close>
  leaves the compensation byte and every status bit but bit 5 as they were; \<^verbatim>\<open>sleep\<close> and
  \<^verbatim>\<open>wake\<close> leave the compensation byte as it was.
\<close>

theorem config_writes_preserved_bits:
  assumes "codes w (ntx w) = 0" and "codes w (ntx w + 1) = 0" and "codes w (ntx w + 2) = 0"
  shows "regs (snd (setCompensation c w)) MAX1704X_ATHRD_ADDR = regs w MAX1704X_ATHRD_ADDR
       \<and> regs (snd (setAlertThreshold thrd w)) MAX1704X_RCOMP_ADDR = regs w MAX1704X_RCOMP_ADDR
       \<and> regs (snd (setAlertThreshold thrd w)) MAX1704X_ATHRD_ADDR AND 0x80
           = regs w MAX1704X_ATHRD_ADDR AND 0x80
       \<and> regs (snd (setAlertThreshold thrd w)) MAX1704X_ATHRD_ADDR AND 0x60 = 0
       \<and> regs (snd (clearAlertInterrupt w)) MAX1704X_RCOMP_ADDR = regs w MAX1704X_RCOMP_ADDR
       \<and> regs (snd (clearAlertInterrupt w)) MAX1704X_ATHRD_ADDR AND 0xDF
           = regs w MAX1704X_ATHRD_ADDR AND 0xDF
       \<and> regs (snd (sleep w)) MAX1704X_RCOMP_ADDR = regs w MAX1704X_RCOMP_ADDR
       \<and> regs (snd (wake w)) MAX1704X_RCOMP_ADDR = regs w MAX1704X_RCOMP_ADDR"
proof -
  have m1: "((x AND 0x80) OR ((- y) AND 0x1F)) AND 0x80 = x AND 0x80" for x y :: uint8_t
    by (simp add: bit.conj_disj_distrib2 and.assoc)
  have m2: "((x AND 0x80) OR ((- y) AND 0x1F)) AND 0x60 = 0" for x y :: uint8_t
    by (simp add: bit.conj_disj_distrib2 and.assoc)
  have m3: "(x AND 0xDF) AND 0xDF = x AND 0xDF" for x :: uint8_t
    by (simp add: and.assoc)
  show ?thesis
    by (simp add: setCompensation_acked [OF assms(1,2)] setAlertThreshold_acked [OF assms(1,2)]
        clearAlertInterrupt_acked [OF assms] sleep_acked [OF assms] wake_acked [OF assms]
        encodeThreshold_word m1 m2 m3 config_addrs)
qed

theorem config_writes_preserved_bits_witness:
  "codes (chip 0x97 0x3C) (ntx (chip 0x97 0x3C)) = 0
   \<and> codes (chip 0x97 0x3C) (ntx (chip 0x97 0x3C) + 1) = 0
   \<and> codes (chip 0x97 0x3C) (ntx (chip 0x97 0x3C) + 2) = 0
   \<and> regs (snd (setCompensation 0x55 (chip 0x97 0x3C))) MAX1704X_ATHRD_ADDR = 0x3C
   \<and> regs (snd (setAlertThreshold 10 (chip 0x97 0x3C))) MAX1704X_RCOMP_ADDR = 0x97
   \<and> regs (snd (clearAlertInterrupt (chip 0x97 0x3C))) MAX1704X_RCOMP_ADDR = 0x97
   \<and> regs (snd (sleep (chip 0x97 0x3C))) MAX1704X_RCOMP_ADDR = 0x97
   \<and> regs (snd (wake (chip 0x97 0x3C))) MAX1704X_RCOMP_ADDR = 0x97"
  using config_writes_preserved_bits
    [of "chip 0x97 0x3C" "0x55" 10, OF chip_codes chip_codes chip_codes]
  by (simp add: chip_codes chip_regs)

lemma decodeThreshold_word: "decodeThreshold s = (NOT s AND 0x1F) + 1"
  by (simp add: decodeThreshold_def of_int_and_eq of_int_not_eq)

text \<open>
  Claim C1, as stated, fails: with the alert flag (bit 5) set in the status byte 0x3C,
  \<^verbatim>\<open>setAlertThreshold\<close>, \<^verbatim>\<open>sleep\<close> and \<^verbatim>\<open>wake\<close> each write a status byte with bit 5
  clear, although none of them is meant to change that bit.
\<close>

theorem config_writes_lose_alert_flag:
  "bit (regs (chip 0x97 0x3C) MAX1704X_ATHRD_ADDR) 5
   \<and> \<not> bit (regs (snd (setAlertThreshold 10 (chip 0x97 0x3C))) MAX1704X_ATHRD_ADDR) 5
   \<and> \<not> bit (regs (snd (sleep (chip 0x97 0x3C))) MAX1704X_ATHRD_ADDR) 5
   \<and> \<not> bit (regs (snd (wake (chip 0x97 0x3C))) MAX1704X_ATHRD_ADDR) 5"
proof -
  have a: "regs (snd (setAlertThreshold 10 (chip 0x97 0x3C))) MAX1704X_ATHRD_ADDR = 0x16"
    by (simp add: setAlertThreshold_acked [OF chip_codes chip_codes] chip_regs
        encodeThreshold_word clampThreshold_def)
  have s: "regs (snd (sleep (chip 0x97 0x3C))) MAX1704X_ATHRD_ADDR = 0x84"
    by (simp add: sleep_acked [OF chip_codes chip_codes chip_codes] chip_regs
        decodeThreshold_word)
  have k: "regs (snd (wake (chip 0x97 0x3C))) MAX1704X_ATHRD_ADDR = 0x04"
    by (simp add: wake_acked [OF chip_codes chip_codes chip_codes] chip_regs
        decodeThreshold_word)
  show ?thesis
    by (simp add: a s k chip_regs)
qed

text \<open>
  Claim C2. At the status byte 0x1C (threshold 4 percent) \<^verbatim>\<open>sleep\<close> writes 0x84 and
  \<^verbatim>\<open>wake\<close> writes 0x04, not \<open>0x80 OR 0x1C\<close> and \<open>0x7F AND 0x1C\<close>: the byte combined with the
  sleep bit is the decoded percent, not the encoded field, and the threshold reads back
  as 28 percent afterwards.
\<close>

theorem sleep_wake_write_decoded_percent:
  "fst (getAlertThreshold (chip 0x97 0x1C)) = 4
   \<and> regs (snd (sleep (chip 0x97 0x1C))) MAX1704X_ATHRD_ADDR = 0x84
   \<and> regs (snd (sleep (chip 0x97 0x1C))) MAX1704X_ATHRD_ADDR \<noteq> 0x80 OR 0x1C
   \<and> fst (getAlertThreshold (snd (sleep (chip 0x97 0x1C)))) = 28
   \<and> regs (snd (wake (chip 0x97 0x1C))) MAX1704X_ATHRD_ADDR = 0x04
   \<and> regs (snd (wake (chip 0x97 0x1C))) MAX1704X_ATHRD_ADDR \<noteq> 0x7F AND 0x1C
   \<and> fst (getAlertThreshold (snd (wake (chip 0x97 0x1C)))) = 28"
proof -
  have g: "fst (getAlertThreshold (chip 0x97 0x1C)) = 4"
    by (simp add: getAlertThreshold_eq getStatus_eq chip_codes chip_regs decodeThreshold_word)
  have s: "regs (snd (sleep (chip 0x97 0x1C))) MAX1704X_ATHRD_ADDR = 0x84"
    by (simp add: sleep_acked [OF chip_codes chip_codes chip_codes] chip_regs
        decodeThreshold_word)
  have k: "regs (snd (wake (chip 0x97 0x1C))) MAX1704X_ATHRD_ADDR = 0x04"
    by (simp add: wake_acked [OF chip_codes chip_codes chip_codes] chip_regs
        decodeThreshold_word)
  have c3: "codes (snd (sleep (chip 0x97 0x1C))) (ntx (snd (sleep (chip 0x97 0x1C)))) = 0"
    by (simp add: sleep_eq writeConfig_eq getStatus_eq getCompensation_eq Let_def chip_def)
  have c3': "codes (snd (wake (chip 0x97 0x1C))) (ntx (snd (wake (chip 0x97 0x1C)))) = 0"
    by (simp add: wake_eq writeConfig_eq getStatus_eq getCompensation_eq Let_def chip_def)
  have gs: "fst (getAlertThreshold (snd (sleep (chip 0x97 0x1C)))) = 28"
    by (simp add: getAlertThreshold_eq getStatus_eq c3 s decodeThreshold_word)
  have gk: "fst (getAlertThreshold (snd (wake (chip 0x97 0x1C)))) = 28"
    by (simp add: getAlertThreshold_eq getStatus_eq c3' k decodeThreshold_word)
  show ?thesis
    by (simp add: g s k gs gk)
qed

section \<open>The voltage conversion\<close>

lemma nbits_numeral [simp]:
  "nbits 0 = 0" "nbits 1 = 1"
  "nbits (numeral (Num.Bit0 k)) = Suc (nbits (numeral k))"
  "nbits (numeral (Num.Bit1 k)) = Suc (nbits (numeral k))"
  by (simp_all add: nbits.simps [of 0] nbits.simps [of 1]
      nbits.simps [of "numeral (Num.Bit0 k)"] nbits.simps [of "numeral (Num.Bit1 k)"])

text \<open>
  Three facts on the rounding: \<open>nbits\<close> counts the bits, \<open>round_shift\<close> is within half a
  unit of the exact quotient, and no other integer is nearer.
\<close>

lemma round_shift_half: "2 * \<bar>round_shift s m * 2 ^ s - m\<bar> \<le> 2 ^ s"
proof -
  define q r where "q = m div 2 ^ s" and "r = m mod 2 ^ s"
  have m: "m = q * 2 ^ s + r"
    unfolding q_def r_def by (rule div_mult_mod_eq [symmetric])
  have r: "0 \<le> r" "r < 2 ^ s" by (simp_all add: r_def)
  have rs: "round_shift s m = (if 2 * r < 2 ^ s then q
         else if 2 * r > 2 ^ s then q + 1
         else if even q then q else q + 1)"
    by (simp add: round_shift_def Let_def q_def r_def)
  have down: "q * 2 ^ s - m = - r" and up: "(q + 1) * 2 ^ s - m = 2 ^ s - r"
    by (simp_all add: m algebra_simps)
  consider "2 * r < 2 ^ s" | "2 ^ s < 2 * r" | "2 * r = 2 ^ s" by linarith
  then show ?thesis
  proof cases
    case 1
    then have "round_shift s m = q" by (simp add: rs)
    with 1 r show ?thesis by (simp add: down)
  next
    case 2
    then have "round_shift s m = q + 1" by (simp add: rs)
    with 2 r show ?thesis by (simp add: up)
  next
    case 3
    then have "round_shift s m = q \<or> round_shift s m = q + 1" by (simp add: rs)
    then show ?thesis
    proof
      assume "round_shift s m = q"
      with 3 r show ?thesis by (simp add: down)
    next
      assume "round_shift s m = q + 1"
      with 3 r show ?thesis by (simp add: up)
    qed
  qed
qed

lemma round_shift_nearest: "\<bar>round_shift s m * 2 ^ s - m\<bar> \<le> \<bar>k * 2 ^ s - m\<bar>"
proof (cases "k = round_shift s m")
  case True
  then show ?thesis by simp
next
  case False
  have lin: "P \<le> A + B \<Longrightarrow> 2 * B \<le> P \<Longrightarrow> B \<le> A" for P A B :: int
    by linarith
  from False have "1 \<le> \<bar>k - round_shift s m\<bar>" by simp
  then have "(2::int) ^ s \<le> \<bar>k - round_shift s m\<bar> * 2 ^ s"
    by (simp add: mult_le_cancel_right1)
  also have "\<dots> = \<bar>(k - round_shift s m) * 2 ^ s\<bar>"
    by (simp add: abs_mult)
  also have "\<dots> = \<bar>(k * 2 ^ s - m) - (round_shift s m * 2 ^ s - m)\<bar>"
    by (simp add: left_diff_distrib)
  also have "\<dots> \<le> \<bar>k * 2 ^ s - m\<bar> + \<bar>round_shift s m * 2 ^ s - m\<bar>"
    by (rule abs_triangle_ineq4)
  finally show ?thesis
    using round_shift_half [of s m] by (rule lin)
qed

lemma nbits_bounds: "0 < n \<Longrightarrow> 2 ^ nbits n \<le> 2 * n \<and> n < 2 ^ nbits n"
proof (induction n rule: nbits.induct)
  case (1 n)
  show ?case
  proof (cases "n = 1")
    case True
    then show ?thesis by (simp add: nbits.simps [of 1] nbits.simps [of 0])
  next
    case False
    with "1.prems" have "0 < n div 2" by simp
    with "1.IH" "1.prems" have "2 ^ nbits (n div 2) \<le> 2 * (n div 2) \<and> n div 2 < 2 ^ nbits (n div 2)"
      by simp
    moreover have "nbits n = Suc (nbits (n div 2))"
      using "1.prems" by (simp add: nbits.simps [of n])
    ultimately show ?thesis by auto
  qed
qed

lemmas fp_defs = fp_mul_def fp_of_int_def fp_of_ratio_def fp_round_def round_shift_def
  fp_value_def

lemma raw12: "push_bit 4 (a::int) + drop_bit 4 b = drop_bit 4 (a * 256 + b)"
proof -
  have "(a * 256 + b) div 16 = a * 16 + b div 16"
    using div_mult_self3 [of 16 "a * 16" b] by simp
  then show ?thesis by (simp add: push_bit_eq_mult drop_bit_eq_div)
qed

lemma getVoltage_eq:
  "getVoltage p ic w =
     (let ((r1, r2), w) = readPair True MAX1704X_VCELL_ADDR (snd (quickStart (snd (reset w))))
      in (fp_mul p (fp_mul p (fp_of_int p (push_bit 4 r1 + drop_bit 4 r2))
                      (fp_of_ratio p 125 100000))
            (fp_of_int p (gaugeType_value ic)), w))"
  unfolding getVoltage_def readPair_def Let_def
  by (simp split: prod.splits)

lemma volts_double:
  "fp_mul 53 (fp_mul 53 (fp_of_int 53 2048) (fp_of_ratio 53 125 100000)) (fp_of_int 53 1)
     = (0x147AE147AE147B, - 51)"
  "fp_mul 53 (fp_mul 53 (fp_of_int 53 2048) (fp_of_ratio 53 125 100000)) (fp_of_int 53 2)
     = (0x147AE147AE147B, - 50)"
  "fp_of_ratio 53 256 100 = (0x147AE147AE147B, - 51)"
  "fp_of_ratio 53 512 100 = (0x147AE147AE147B, - 50)"
  by (simp_all add: fp_defs Let_def)

lemma volts_float:
  "fp_mul 24 (fp_mul 24 (fp_of_int 24 2048) (fp_of_ratio 24 125 100000)) (fp_of_int 24 1)
     = (0xA3D70A, - 22)"
  "fp_mul 24 (fp_mul 24 (fp_of_int 24 2048) (fp_of_ratio 24 125 100000)) (fp_of_int 24 2)
     = (0xA3D70A, - 21)"
  "fp_of_ratio 24 256 100 = (0xA3D70A, - 22)"
  "fp_of_ratio 24 512 100 = (0xA3D70A, - 21)"
  by (simp_all add: fp_defs Let_def)

lemma volts_close:
  "\<bar>fp_value (0x147AE147AE147B, - 51) - 256 / 100\<bar> \<le> 1 / 2 ^ 53"
  "\<bar>fp_value (0x147AE147AE147B, - 50) - 512 / 100\<bar> \<le> 1 / 2 ^ 52"
  "\<bar>fp_value (0xA3D70A, - 22) - 256 / 100\<bar> \<le> 1 / 2 ^ 24"
  "\<bar>fp_value (0xA3D70A, - 21) - 512 / 100\<bar> \<le> 1 / 2 ^ 23"
  by (simp_all add: fp_value_def)

lemma command_frame:
  "regs (snd (quickStart (snd (reset w)))) MAX1704X_VCELL_ADDR = regs w MAX1704X_VCELL_ADDR"
  "regs (snd (quickStart (snd (reset w)))) (MAX1704X_VCELL_ADDR + 1)
     = regs w (MAX1704X_VCELL_ADDR + 1)"
  "codes (snd (quickStart (snd (reset w)))) = codes w"
  "ntx (snd (quickStart (snd (reset w)))) = ntx w + 2"
  by (simp_all add: quickStart_eq reset_eq addr_defs)

lemma getVoltage_acked:
  assumes "codes w (ntx w + 2) = 0"
  shows "fst (getVoltage p ic w) =
     fp_mul p (fp_mul p
        (fp_of_int p (drop_bit 4 (uint (regs w MAX1704X_VCELL_ADDR) * 256
                                   + uint (regs w (MAX1704X_VCELL_ADDR + 1)))))
        (fp_of_ratio p 125 100000))
      (fp_of_int p (gaugeType_value ic))"
  using assms
  by (simp add: getVoltage_eq readPair_eq command_frame Let_def raw12)

text \<open>
  Claim C7. When the transaction that selects the VCELL register completes,
  \<^verbatim>\<open>getVoltage\<close> returns the upper 12 bits of the big-endian register pair, times 0.00125,
  times 1 for the MAX17048 and 2 for the MAX17049, each product rounded as a \<^verbatim>\<open>double\<close>
  product is. For the register bytes 0x80, 0x00 the result is the \<^verbatim>\<open>double\<close> that the
  literal 2.56 denotes (5.12 for the MAX17049), within half a unit in the last place of
  that number, with 53 as with 24 significant bits.
\<close>

theorem getVoltage_conversion:
  assumes "codes w (ntx w + 2) = 0"
  shows "fst (getVoltage p ic w) =
           fp_mul p (fp_mul p
              (fp_of_int p (drop_bit 4 (uint (regs w MAX1704X_VCELL_ADDR) * 256
                                         + uint (regs w (MAX1704X_VCELL_ADDR + 1)))))
              (fp_of_ratio p 125 100000))
            (fp_of_int p (gaugeType_value ic))
       \<and> gaugeType_value MAX17048 = 1 \<and> gaugeType_value MAX17049 = 2
       \<and> (regs w MAX1704X_VCELL_ADDR = 0x80 \<and> regs w (MAX1704X_VCELL_ADDR + 1) = 0x00 \<longrightarrow>
            fst (getVoltage 53 MAX17048 w) = fp_of_ratio 53 256 100
          \<and> fst (getVoltage 53 MAX17049 w) = fp_of_ratio 53 512 100
          \<and> fst (getVoltage 24 MAX17048 w) = fp_of_ratio 24 256 100
          \<and> fst (getVoltage 24 MAX17049 w) = fp_of_ratio 24 512 100
          \<and> \<bar>fp_value (fst (getVoltage 53 MAX17048 w)) - 256 / 100\<bar> \<le> 1 / 2 ^ 53
          \<and> \<bar>fp_value (fst (getVoltage 53 MAX17049 w)) - 512 / 100\<bar> \<le> 1 / 2 ^ 52
          \<and> \<bar>fp_value (fst (getVoltage 24 MAX17048 w)) - 256 / 100\<bar> \<le> 1 / 2 ^ 24
          \<and> \<bar>fp_value (fst (getVoltage 24 MAX17049 w)) - 512 / 100\<bar> \<le> 1 / 2 ^ 23)"
proof -
  have ex: "fst (getVoltage 53 MAX17048 w) = fp_of_ratio 53 256 100
          \<and> fst (getVoltage 53 MAX17049 w) = fp_of_ratio 53 512 100
          \<and> fst (getVoltage 24 MAX17048 w) = fp_of_ratio 24 256 100
          \<and> fst (getVoltage 24 MAX17049 w) = fp_of_ratio 24 512 100
          \<and> \<bar>fp_value (fst (getVoltage 53 MAX17048 w)) - 256 / 100\<bar> \<le> 1 / 2 ^ 53
          \<and> \<bar>fp_value (fst (getVoltage 53 MAX17049 w)) - 512 / 100\<bar> \<le> 1 / 2 ^ 52
          \<and> \<bar>fp_value (fst (getVoltage 24 MAX17048 w)) - 256 / 100\<bar> \<le> 1 / 2 ^ 24
          \<and> \<bar>fp_value (fst (getVoltage 24 MAX17049 w)) - 512 / 100\<bar> \<le> 1 / 2 ^ 23"
    if "regs w MAX1704X_VCELL_ADDR = 0x80" and "regs w (MAX1704X_VCELL_ADDR + 1) = 0x00"
  proof -
    have n: "drop_bit 4 (uint (regs w MAX1704X_VCELL_ADDR) * 256
                + uint (regs w (MAX1704X_VCELL_ADDR + 1))) = 2048"
      by (simp add: that drop_bit_eq_div)
    show ?thesis
      by (simp only: getVoltage_acked [OF assms] n gaugeType_value.simps volts_double
          volts_float volts_close)
  qed
  have g: "gaugeType_value MAX17048 = 1 \<and> gaugeType_value MAX17049 = 2"
    by simp
  from getVoltage_acked [OF assms, of p ic] g ex show ?thesis
    by blast
qed

theorem getVoltage_conversion_witness:
  "codes ((chip 0x97 0x1C)\<lparr>regs := (regs (chip 0x97 0x1C))(MAX1704X_VCELL_ADDR := 0x80)\<rparr>)
     (ntx ((chip 0x97 0x1C)\<lparr>regs := (regs (chip 0x97 0x1C))(MAX1704X_VCELL_ADDR := 0x80)\<rparr>) + 2) = 0
   \<and> fp_value (fst (getVoltage 53 MAX17048
        ((chip 0x97 0x1C)\<lparr>regs := (regs (chip 0x97 0x1C))(MAX1704X_VCELL_ADDR := 0x80)\<rparr>)))
       = 0x147AE147AE147B / 2 ^ 51
   \<and> fp_value (fst (getVoltage 53 MAX17049
        ((chip 0x97 0x1C)\<lparr>regs := (regs (chip 0x97 0x1C))(MAX1704X_VCELL_ADDR := 0x80)\<rparr>)))
       = 0x147AE147AE147B / 2 ^ 50"
proof -
  let ?w = "(chip 0x97 0x1C)\<lparr>regs := (regs (chip 0x97 0x1C))(MAX1704X_VCELL_ADDR := 0x80)\<rparr>"
  have c: "codes ?w (ntx ?w + 2) = 0" by (simp add: chip_def)
  have r: "regs ?w MAX1704X_VCELL_ADDR = 0x80" "regs ?w (MAX1704X_VCELL_ADDR + 1) = 0x00"
    by (simp_all add: chip_def addr_defs)
  from getVoltage_conversion [of ?w 53 MAX17048, OF c] r
  have e: "fst (getVoltage 53 MAX17048 ?w) = fp_of_ratio 53 256 100"
    "fst (getVoltage 53 MAX17049 ?w) = fp_of_ratio 53 512 100"
    by blast+
  have v: "fp_value (0x147AE147AE147B, - 51) = 0x147AE147AE147B / 2 ^ 51"
    "fp_value (0x147AE147AE147B, - 50) = 0x147AE147AE147B / 2 ^ 50"
    by (simp_all add: fp_value_def)
  show ?thesis
    by (simp only: c e volts_double v)
qed

end
